theory Spec2Isabelle
  imports Main
begin

section \<open>The command-line interface of the music downloader\<close>

text \<open>
  The two source files, \<^verbatim>\<open>downloader/cli.py\<close> and \<^verbatim>\<open>downloader/cli/main.py\<close>, declare
  the commands \<^verbatim>\<open>about\<close>, \<^verbatim>\<open>cookies\<close> (first file only) and \<^verbatim>\<open>fetch\<close> with the
  \<^verbatim>\<open>click\<close> package. Each command is a list of parameter declarations (the decorators)
  and a callback whose body is its docstring and nothing else. The declarations of
  \<^verbatim>\<open>about\<close> and \<^verbatim>\<open>fetch\<close> are the same in both files, so one model serves both.

  The model starts where click's tokenizer ends: a command receives, for each declared
  parameter, the raw text found on the command line (\<open>None\<close> when the parameter was not
  given), converts it with the declared type, checks \<^verbatim>\<open>required\<close>, and calls the
  callback. Invocations with \<^verbatim>\<open>--help\<close> and the group callback \<^verbatim>\<open>main\<close> (logging setup)
  are outside the model.
\<close>

subsection \<open>What Python, click and the operating system provide\<close>

text \<open>
  Every failure of parameter processing is a \<^verbatim>\<open>click.UsageError\<close> (\<^verbatim>\<open>BadParameter\<close>,
  \<^verbatim>\<open>MissingParameter\<close>): click prints the message and exits with code 2. Which of several
  failing parameters is reported depends on the order of the command line, which the model
  does not keep, so there is one error value.
\<close>

datatype cli_error = UsageError

datatype file_kind = RegularFile | Directory | OtherFile

text \<open>
  The functions the declarations rely on and the source does not contain are parameters:
  \<^item> \<open>py_int\<close>: Python's \<^verbatim>\<open>int(text)\<close>, \<open>None\<close> when it raises \<^verbatim>\<open>ValueError\<close>;
  \<^item> \<open>casefold_other\<close>: \<^verbatim>\<open>str.casefold\<close> on a text with a character outside ASCII
    (on ASCII text it is lower-casing, written out below);
  \<^item> \<open>resolve_path\<close>: \<^verbatim>\<open>Path(p).resolve()\<close>;
  \<^item> \<open>os_stat\<close>: \<^verbatim>\<open>os.stat\<close>, \<open>None\<close> when it raises \<^verbatim>\<open>OSError\<close>;
  \<^item> \<open>os_readable\<close>: \<^verbatim>\<open>os.access(p, os.R_OK)\<close>.
\<close>

record env =
  py_int :: "string \<Rightarrow> int option"
  casefold_other :: "string \<Rightarrow> string"
  resolve_path :: "string \<Rightarrow> string"
  os_stat :: "string \<Rightarrow> file_kind option"
  os_readable :: "string \<Rightarrow> bool"

definition is_ascii :: "char \<Rightarrow> bool" where
  "is_ascii c = ((of_char c :: nat) < 128)"

definition ascii_lower :: "char \<Rightarrow> char" where
  "ascii_lower c =
     (let n = (of_char c :: nat) in if 65 \<le> n \<and> n \<le> 90 then char_of (n + 32) else c)"

definition ascii_upper :: "char \<Rightarrow> char" where
  "ascii_upper c =
     (let n = (of_char c :: nat) in if 97 \<le> n \<and> n \<le> 122 then char_of (n - 32) else c)"

definition casefold :: "env \<Rightarrow> string \<Rightarrow> string" where
  "casefold e s = (if list_all is_ascii s then map ascii_lower s else casefold_other e s)"

text \<open>
  \<^verbatim>\<open>click.Choice(choices, case_sensitive).convert\<close>: the value and the choices are
  normalised (case-folded unless \<^verbatim>\<open>case_sensitive\<close>), the choices go into a dictionary
  from normalised to original spelling (a later choice replaces an earlier one with the
  same normal form), and the original spelling of the match is returned.
\<close>

definition choice_convert :: "env \<Rightarrow> bool \<Rightarrow> string list \<Rightarrow> string \<Rightarrow> cli_error + string" where
  "choice_convert e case_sensitive choices v =
     (let norm = (if case_sensitive then (\<lambda>s. s) else casefold e) in
      case map_of (rev (map (\<lambda>c. (norm c, c)) choices)) (norm v) of
        None \<Rightarrow> Inl UsageError
      | Some c \<Rightarrow> Inr c)"

text \<open>
  \<^verbatim>\<open>click.IntRange(lo, hi).convert\<close>: \<^verbatim>\<open>int(value)\<close>, then the closed range check
  (no clamping). A default value is converted too; it is an \<^verbatim>\<open>int\<close> already.
\<close>

definition int_range_check :: "int \<Rightarrow> int \<Rightarrow> int \<Rightarrow> cli_error + int" where
  "int_range_check lo hi n = (if n < lo \<or> hi < n then Inl UsageError else Inr n)"

definition int_range_convert :: "env \<Rightarrow> int \<Rightarrow> int \<Rightarrow> string \<Rightarrow> cli_error + int" where
  "int_range_convert e lo hi v =
     (case py_int e v of None \<Rightarrow> Inl UsageError | Some n \<Rightarrow> int_range_check lo hi n)"

text \<open>
  \<^verbatim>\<open>click.Path(file_okay=False, resolve_path=True, path_type=pathlib.Path).convert\<close>,
  with click's defaults \<^verbatim>\<open>exists=False\<close>, \<^verbatim>\<open>dir_okay=True\<close>, \<^verbatim>\<open>readable=True\<close>: the
  path is resolved; a path that cannot be examined is accepted, an existing regular file
  is refused, and so is an existing path that is not readable.
\<close>

definition path_convert :: "env \<Rightarrow> string \<Rightarrow> cli_error + string" where
  "path_convert e v =
     (let rv = resolve_path e v in
      case os_stat e rv of
        None \<Rightarrow> Inr rv
      | Some k \<Rightarrow>
          if k = RegularFile then Inl UsageError
          else if os_readable e rv then Inr rv
          else Inl UsageError)"

text \<open>An option declared \<^verbatim>\<open>required=True\<close> that was not given is a usage error.\<close>

definition required_option :: "'a option \<Rightarrow> cli_error + 'a" where
  "required_option v = (case v of None \<Rightarrow> Inl UsageError | Some x \<Rightarrow> Inr x)"

text \<open>
  \<^verbatim>\<open>click.Argument\<close> without an explicit \<^verbatim>\<open>required\<close>: not required when it has a
  default, otherwise required exactly when \<^verbatim>\<open>nargs > 0\<close>.
\<close>

definition argument_required :: "bool \<Rightarrow> int \<Rightarrow> bool" where
  "argument_required has_default nargs = (if has_default then False else 0 < nargs)"

text \<open>An argument with \<^verbatim>\<open>nargs=-1\<close> takes all the positional words, as a tuple.\<close>

definition variadic_argument :: "bool \<Rightarrow> string list \<Rightarrow> cli_error + string list" where
  "variadic_argument req vs = (if req \<and> vs = [] then Inl UsageError else Inr vs)"

text \<open>
  An argument with \<^verbatim>\<open>nargs=1\<close>; the first parameter is its declared default, if any.
  Without a default the argument is required (\<open>argument_required False 1\<close>) and its
  absence is a usage error; with one it is not required and takes the default.
\<close>

fun single_argument :: "string option \<Rightarrow> string option \<Rightarrow> cli_error + string" where
  "single_argument dflt (Some x) = Inr x"
| "single_argument (Some d) None = Inr d"
| "single_argument None None = Inl UsageError"

subsection \<open>Running a command\<close>

text \<open>
  What a run of a command leaves behind: the exit code, the lines printed to the standard
  output, and the world (credential store, file system) after it.
\<close>

record 'w outcome =
  exit_code :: int
  stdout :: "string list"
  world :: 'w

definition usage_exit :: "'w \<Rightarrow> 'w outcome" where
  "usage_exit w = \<lparr>exit_code = 2, stdout = [], world = w\<rparr>"

definition returned :: "string list \<times> 'w \<Rightarrow> 'w outcome" where
  "returned r = \<lparr>exit_code = 0, stdout = fst r, world = snd r\<rparr>"

subsection \<open>The command \<^verbatim>\<open>fetch\<close>\<close>

record fetch_raw =
  raw_targets :: "string list"
  raw_limit :: "string option"
  raw_conflict :: "string option"
  raw_dest :: "string option"

record fetch_args =
  arg_targets :: "string list"
  arg_limit :: int
  arg_conflict :: string
  arg_dest :: string

definition conflict_choices :: "string list" where
  "conflict_choices = [''ERROR'', ''IGNORE'', ''OVERRIDE'']"

definition fetch_params :: "env \<Rightarrow> fetch_raw \<Rightarrow> cli_error + fetch_args" where
  "fetch_params e r =
     (case (case raw_limit r of
              None \<Rightarrow> int_range_check 1 8 4
            | Some s \<Rightarrow> int_range_convert e 1 8 s) of
        Inl err \<Rightarrow> Inl err
      | Inr l \<Rightarrow>
     (case choice_convert e False conflict_choices
             (case raw_conflict r of None \<Rightarrow> ''ERROR'' | Some s \<Rightarrow> s) of
        Inl err \<Rightarrow> Inl err
      | Inr c \<Rightarrow>
     (case required_option (raw_dest r) of
        Inl err \<Rightarrow> Inl err
      | Inr d0 \<Rightarrow>
     (case path_convert e d0 of
        Inl err \<Rightarrow> Inl err
      | Inr d \<Rightarrow>
     (case variadic_argument (argument_required False (- 1)) (raw_targets r) of
        Inl err \<Rightarrow> Inl err
      | Inr ts \<Rightarrow>
          Inr \<lparr>arg_targets = ts, arg_limit = l, arg_conflict = c, arg_dest = d\<rparr>)))))"

text \<open>
  The callback \<^verbatim>\<open>fetch(targets, limit, conflict, dest)\<close>: its body is the docstring, so
  it prints nothing, leaves the world as it is and returns.
\<close>

definition fetch :: "string list \<Rightarrow> int \<Rightarrow> string \<Rightarrow> string \<Rightarrow> 'w \<Rightarrow> string list \<times> 'w" where
  "fetch targets limit conflict dest w = ([], w)"

definition fetch_cmd :: "env \<Rightarrow> fetch_raw \<Rightarrow> 'w \<Rightarrow> 'w outcome" where
  "fetch_cmd e r w =
     (case fetch_params e r of
        Inl err \<Rightarrow> usage_exit w
      | Inr a \<Rightarrow> returned (fetch (arg_targets a) (arg_limit a) (arg_conflict a) (arg_dest a) w))"

subsection \<open>The command \<^verbatim>\<open>cookies\<close>\<close>

record cookies_raw =
  raw_action :: "string option"
  raw_domain :: "string option"
  raw_key :: "string option"
  raw_value :: "string option"

record cookies_args =
  arg_action :: string
  arg_domain :: string
  arg_key :: "string option"
  arg_value :: "string option"

definition action_choices :: "string list" where
  "action_choices = [''DELETE'', ''GET'', ''SET'']"

definition cookies_params :: "env \<Rightarrow> cookies_raw \<Rightarrow> cli_error + cookies_args" where
  "cookies_params e r =
     (case required_option (raw_domain r) of
        Inl err \<Rightarrow> Inl err
      | Inr d \<Rightarrow>
     (case single_argument None (raw_action r) of
        Inl err \<Rightarrow> Inl err
      | Inr a0 \<Rightarrow>
     (case choice_convert e False action_choices a0 of
        Inl err \<Rightarrow> Inl err
      | Inr a \<Rightarrow>
          Inr \<lparr>arg_action = a, arg_domain = d, arg_key = raw_key r, arg_value = raw_value r\<rparr>)))"

text \<open>
  The callback \<^verbatim>\<open>cookies(action, domain, key, value)\<close>: its body is the docstring, so
  it prints nothing, leaves the world as it is and returns.
\<close>

definition cookies :: "string \<Rightarrow> string \<Rightarrow> string option \<Rightarrow> string option \<Rightarrow> 'w \<Rightarrow> string list \<times> 'w" where
  "cookies action domain key val w = ([], w)"

definition cookies_cmd :: "env \<Rightarrow> cookies_raw \<Rightarrow> 'w \<Rightarrow> 'w outcome" where
  "cookies_cmd e r w =
     (case cookies_params e r of
        Inl err \<Rightarrow> usage_exit w
      | Inr a \<Rightarrow> returned (cookies (arg_action a) (arg_domain a) (arg_key a) (arg_value a) w))"

subsection \<open>The command \<^verbatim>\<open>about\<close>\<close>

text \<open>The argument \<^verbatim>\<open>domain\<close> has the default \<^verbatim>\<open>""\<close>, so it is never missing.\<close>

definition about_params :: "string option \<Rightarrow> cli_error + string" where
  "about_params raw = single_argument (Some []) raw"

text \<open>
  The callback \<^verbatim>\<open>about(domain)\<close>: its body is the docstring, so it prints nothing,
  leaves the world as it is and returns.
\<close>

definition about :: "string \<Rightarrow> 'w \<Rightarrow> string list \<times> 'w" where
  "about domain w = ([], w)"

definition about_cmd :: "string option \<Rightarrow> 'w \<Rightarrow> 'w outcome" where
  "about_cmd raw w =
     (case about_params raw of
        Inl err \<Rightarrow> usage_exit w
      | Inr d \<Rightarrow> returned (about d w))"

subsection \<open>Casings of a word, and an environment to run examples in\<close>

text \<open>
  \<open>v\<close> is a casing of \<open>w\<close>: the same length, and each character of \<open>v\<close> is the
  character of \<open>w\<close> at that place in upper or in lower case.
\<close>

definition casing_of :: "string \<Rightarrow> string \<Rightarrow> bool" where
  "casing_of w v = list_all2 (\<lambda>a b. b = ascii_upper a \<or> b = ascii_lower a) w v"

text \<open>
  An environment for the examples: decimal numerals of one digit, paths that resolve to
  themselves, \<^verbatim>\<open>/tmp/out\<close> a readable directory, \<^verbatim>\<open>/etc/passwd\<close> a regular file, and
  nothing else on the disk.
\<close>

definition sample_env :: env where
  "sample_env =
     \<lparr>py_int = (\<lambda>s. map_of [(''0'', 0), (''1'', 1), (''4'', 4), (''8'', 8), (''9'', 9)] s),
      casefold_other = (\<lambda>s. s),
      resolve_path = (\<lambda>p. p),
      os_stat = (\<lambda>p. map_of [(''/tmp/out'', Directory), (''/etc/passwd'', RegularFile)] p),
      os_readable = (\<lambda>p. True)\<rparr>"

section \<open>Properties of the parameter types\<close>

lemma int_range_check_Inr: "int_range_check lo hi n = Inr m \<Longrightarrow> lo \<le> m \<and> m \<le> hi"
  by (auto simp: int_range_check_def split: if_splits)

lemma int_range_convert_Inr: "int_range_convert e lo hi s = Inr m \<Longrightarrow> lo \<le> m \<and> m \<le> hi"
  by (auto simp: int_range_convert_def split: option.splits dest: int_range_check_Inr)

lemma ascii_lower_idem: "ascii_lower (ascii_lower c) = ascii_lower c"
  by (auto simp: ascii_lower_def Let_def)

lemma ascii_lower_upper: "ascii_lower (ascii_upper c) = ascii_lower c"
  by (auto simp: ascii_lower_def ascii_upper_def Let_def)

lemma is_ascii_lower: "is_ascii c \<Longrightarrow> is_ascii (ascii_lower c)"
  by (auto simp: ascii_lower_def is_ascii_def Let_def)

lemma is_ascii_upper: "is_ascii c \<Longrightarrow> is_ascii (ascii_upper c)"
  by (auto simp: ascii_upper_def is_ascii_def Let_def)

lemma eq_char_of_iff: "(c = char_of (n::nat)) = (take_bit 8 n = of_char c)"
  by (auto simp: char_of_eq_iff [symmetric])

text \<open>A casing of an ASCII word folds to the same text as the word.\<close>

lemma casing_of_lower: "casing_of w v \<Longrightarrow> map ascii_lower v = map ascii_lower w"
  unfolding casing_of_def
  by (induction w v rule: list_all2_induct) (auto simp: ascii_lower_idem ascii_lower_upper)

lemma casing_of_ascii: "casing_of w v \<Longrightarrow> list_all is_ascii w \<Longrightarrow> list_all is_ascii v"
  unfolding casing_of_def
  by (induction w v rule: list_all2_induct) (auto simp: is_ascii_lower is_ascii_upper)

lemma casing_of_casefold:
  assumes "casing_of w v" and "list_all is_ascii w"
  shows "casefold e v = casefold e w"
  using casing_of_lower [OF assms(1)] casing_of_ascii [OF assms] assms(2)
  by (simp add: casefold_def)

lemma casing_of_choice:
  assumes "casing_of w v" and "list_all is_ascii w"
  shows "choice_convert e False cs v = choice_convert e False cs w"
  by (simp add: choice_convert_def casing_of_casefold [OF assms])

text \<open>Each declared choice is ASCII and converts to itself.\<close>

lemma conflict_choice_canonical:
  "w \<in> set conflict_choices \<Longrightarrow>
     list_all is_ascii w \<and> choice_convert e False conflict_choices w = Inr w"
  unfolding conflict_choices_def
  by (auto simp: choice_convert_def casefold_def ascii_lower_def is_ascii_def char_of_eq_iff)

lemma action_choice_canonical:
  "w \<in> set action_choices \<Longrightarrow>
     list_all is_ascii w \<and> choice_convert e False action_choices w = Inr w"
  unfolding action_choices_def
  by (auto simp: choice_convert_def casefold_def ascii_lower_def is_ascii_def char_of_eq_iff)

lemma action_get: "choice_convert e False action_choices ''get'' = Inr ''GET''"
  by code_simp

lemma action_set: "choice_convert e False action_choices ''set'' = Inr ''SET''"
  by code_simp

section \<open>Properties of the commands\<close>

subsection \<open>What the callbacks do\<close>

text \<open>
  The three callbacks have no statements. Whatever the parameters and whatever the
  world holds, a command prints nothing and changes nothing; its exit code is 2 when
  a parameter is refused and 0 otherwise. The source has no track, no download, no
  report, no credential store and no write to the destination folder.
\<close>

lemma fetch_cmd_effect:
  "stdout (fetch_cmd e r w) = [] \<and> world (fetch_cmd e r w) = w \<and>
   exit_code (fetch_cmd e r w) = (case fetch_params e r of Inl err \<Rightarrow> 2 | Inr a \<Rightarrow> 0)"
  by (simp add: fetch_cmd_def fetch_def returned_def usage_exit_def split: sum.splits)

lemma cookies_cmd_effect:
  "stdout (cookies_cmd e r w) = [] \<and> world (cookies_cmd e r w) = w \<and>
   exit_code (cookies_cmd e r w) = (case cookies_params e r of Inl err \<Rightarrow> 2 | Inr a \<Rightarrow> 0)"
  by (simp add: cookies_cmd_def cookies_def returned_def usage_exit_def split: sum.splits)

lemma about_cmd_effect: "about_cmd raw w = \<lparr>exit_code = 0, stdout = [], world = w\<rparr>"
  by (cases raw) (simp_all add: about_cmd_def about_params_def about_def returned_def)

subsection \<open>Parameters of \<^verbatim>\<open>fetch\<close>\<close>

lemma fetch_params_limit:
  assumes "fetch_params e r = Inr a"
  shows "1 \<le> arg_limit a \<and> arg_limit a \<le> 8"
proof (cases "raw_limit r")
  case None
  with assms have "int_range_check 1 8 4 = Inr (arg_limit a)"
    by (auto simp: fetch_params_def split: sum.splits)
  then show ?thesis by (rule int_range_check_Inr)
next
  case (Some s)
  with assms have "int_range_convert e 1 8 s = Inr (arg_limit a)"
    by (auto simp: fetch_params_def split: sum.splits)
  then show ?thesis by (rule int_range_convert_Inr)
qed

lemma fetch_params_limit_rejected:
  assumes "raw_limit r = Some s" and "py_int e s = Some n" and "n < 1 \<or> 8 < n"
  shows "fetch_params e r = Inl UsageError"
  using assms by (auto simp: fetch_params_def int_range_convert_def int_range_check_def)

lemma fetch_params_conflict_cong:
  assumes "choice_convert e False conflict_choices v = choice_convert e False conflict_choices w"
  shows "fetch_params e (r\<lparr>raw_conflict := Some v\<rparr>) = fetch_params e (r\<lparr>raw_conflict := Some w\<rparr>)"
  using assms by (simp add: fetch_params_def cong: sum.case_cong)

lemma fetch_params_conflict:
  assumes "fetch_params e r = Inr a"
  shows "choice_convert e False conflict_choices
           (case raw_conflict r of None \<Rightarrow> ''ERROR'' | Some s \<Rightarrow> s) = Inr (arg_conflict a)"
  using assms by (auto simp: fetch_params_def split: sum.splits)

text \<open>
  C8. The limit handed to the callback of \<^verbatim>\<open>fetch\<close> is between 1 and 8: whenever the
  parameters are accepted the limit is in the range, and a \<^verbatim>\<open>--limit\<close> text that reads
  as an integer below 1 or above 8 is refused with a usage error (exit code 2), so the
  callback is not called.
\<close>

theorem fetch_limit_in_range:
  "(fetch_params e r = Inr a \<longrightarrow> 1 \<le> arg_limit a \<and> arg_limit a \<le> 8) \<and>
   (raw_limit r = Some s \<and> py_int e s = Some n \<and> (n < 1 \<or> 8 < n) \<longrightarrow>
      fetch_params e r = Inl UsageError \<and> fetch_cmd e r w = usage_exit w)"
  using fetch_params_limit [of e r a] fetch_params_limit_rejected [of r s e n]
  by (auto simp: fetch_cmd_def)

theorem fetch_limit_in_range_witness:
  "fetch_params sample_env
     \<lparr>raw_targets = [''https://music.yandex.ru/album/1''], raw_limit = Some ''8'',
      raw_conflict = None, raw_dest = Some ''/tmp/out''\<rparr>
     = Inr \<lparr>arg_targets = [''https://music.yandex.ru/album/1''], arg_limit = 8,
            arg_conflict = ''ERROR'', arg_dest = ''/tmp/out''\<rparr> \<and>
   (1::int) \<le> 8 \<and>
   py_int sample_env ''9'' = Some 9 \<and>
   fetch_params sample_env
     \<lparr>raw_targets = [''https://music.yandex.ru/album/1''], raw_limit = Some ''9'',
      raw_conflict = None, raw_dest = Some ''/tmp/out''\<rparr> = Inl UsageError \<and>
   exit_code (fetch_cmd sample_env
     \<lparr>raw_targets = [''https://music.yandex.ru/album/1''], raw_limit = Some ''9'',
      raw_conflict = None, raw_dest = Some ''/tmp/out''\<rparr> ()) = 2"
proof -
  let ?r8 = "\<lparr>raw_targets = [''https://music.yandex.ru/album/1''], raw_limit = Some ''8'',
      raw_conflict = None, raw_dest = Some ''/tmp/out''\<rparr>"
  let ?r9 = "\<lparr>raw_targets = [''https://music.yandex.ru/album/1''], raw_limit = Some ''9'',
      raw_conflict = None, raw_dest = Some ''/tmp/out''\<rparr>"
  let ?a8 = "\<lparr>arg_targets = [''https://music.yandex.ru/album/1''], arg_limit = 8,
            arg_conflict = ''ERROR'', arg_dest = ''/tmp/out''\<rparr>"
  have ok: "fetch_params sample_env ?r8 = Inr ?a8"
    by code_simp
  have nine: "py_int sample_env ''9'' = Some 9"
    by (simp add: sample_env_def)
  have pre: "raw_limit ?r9 = Some ''9'' \<and> py_int sample_env ''9'' = Some 9 \<and>
      ((9::int) < 1 \<or> (8::int) < 9)"
    using nine by simp
  from fetch_limit_in_range [of sample_env ?r9 ?a8 "''9''" 9 "()"] pre
  have bad: "fetch_params sample_env ?r9 = Inl UsageError \<and>
      fetch_cmd sample_env ?r9 () = usage_exit ()"
    by blast
  from fetch_limit_in_range [of sample_env ?r8 ?a8 "''8''" 8 "()"] ok
  have rng: "1 \<le> arg_limit ?a8 \<and> arg_limit ?a8 \<le> 8"
    by blast
  show ?thesis using ok nine bad rng by (simp add: usage_exit_def)
qed

text \<open>
  C9. \<^verbatim>\<open>fetch\<close> accepts an invocation without targets. The argument \<^verbatim>\<open>targets\<close> is
  declared with \<^verbatim>\<open>nargs=-1\<close> and nothing else, so it is not required: \<^verbatim>\<open>fetch -d d\<close>,
  for a destination \<open>d\<close> that the path type accepts, passes parameter processing with
  the empty target list and ends with exit code 0; and any accepted invocation is still
  accepted, with the same other parameters, once its targets are taken away.
\<close>

theorem fetch_accepts_no_targets:
  "argument_required False (- 1) = False \<and>
   (path_convert e d = Inr p \<longrightarrow>
      fetch_params e \<lparr>raw_targets = [], raw_limit = None, raw_conflict = None, raw_dest = Some d\<rparr>
        = Inr \<lparr>arg_targets = [], arg_limit = 4, arg_conflict = ''ERROR'', arg_dest = p\<rparr> \<and>
      fetch_cmd e \<lparr>raw_targets = [], raw_limit = None, raw_conflict = None, raw_dest = Some d\<rparr> w
        = \<lparr>exit_code = 0, stdout = [], world = w\<rparr>) \<and>
   (fetch_params e r = Inr a \<longrightarrow>
      fetch_params e (r\<lparr>raw_targets := []\<rparr>) = Inr (a\<lparr>arg_targets := []\<rparr>))"
proof (intro conjI impI)
  show "argument_required False (- 1) = False"
    by (simp add: argument_required_def)
next
  assume p: "path_convert e d = Inr p"
  have c: "choice_convert e False conflict_choices ''ERROR'' = Inr ''ERROR''"
    using conflict_choice_canonical [of "''ERROR''" e] by (simp add: conflict_choices_def)
  show params: "fetch_params e
      \<lparr>raw_targets = [], raw_limit = None, raw_conflict = None, raw_dest = Some d\<rparr>
        = Inr \<lparr>arg_targets = [], arg_limit = 4, arg_conflict = ''ERROR'', arg_dest = p\<rparr>"
    using p c
    by (simp add: fetch_params_def int_range_check_def required_option_def
        variadic_argument_def argument_required_def)
  show "fetch_cmd e \<lparr>raw_targets = [], raw_limit = None, raw_conflict = None, raw_dest = Some d\<rparr> w
        = \<lparr>exit_code = 0, stdout = [], world = w\<rparr>"
    by (simp add: fetch_cmd_def params fetch_def returned_def)
next
  assume "fetch_params e r = Inr a"
  then show "fetch_params e (r\<lparr>raw_targets := []\<rparr>) = Inr (a\<lparr>arg_targets := []\<rparr>)"
    by (auto simp: fetch_params_def variadic_argument_def argument_required_def
        split: sum.splits)
qed

theorem fetch_accepts_no_targets_witness:
  "path_convert sample_env ''/tmp/out'' = Inr ''/tmp/out'' \<and>
   fetch_params sample_env
     \<lparr>raw_targets = [], raw_limit = None, raw_conflict = None, raw_dest = Some ''/tmp/out''\<rparr>
     = Inr \<lparr>arg_targets = [], arg_limit = 4, arg_conflict = ''ERROR'', arg_dest = ''/tmp/out''\<rparr> \<and>
   fetch_cmd sample_env
     \<lparr>raw_targets = [], raw_limit = None, raw_conflict = None, raw_dest = Some ''/tmp/out''\<rparr> ()
     = \<lparr>exit_code = 0, stdout = [], world = ()\<rparr> \<and>
   fetch_params sample_env
     (\<lparr>raw_targets = [''https://music.yandex.ru/album/1''], raw_limit = Some ''8'',
       raw_conflict = Some ''ignore'', raw_dest = Some ''/tmp/out''\<rparr>\<lparr>raw_targets := []\<rparr>)
     = Inr \<lparr>arg_targets = [], arg_limit = 8, arg_conflict = ''IGNORE'', arg_dest = ''/tmp/out''\<rparr>"
proof -
  let ?r = "\<lparr>raw_targets = [''https://music.yandex.ru/album/1''], raw_limit = Some ''8'',
       raw_conflict = Some ''ignore'', raw_dest = Some ''/tmp/out''\<rparr>"
  let ?a = "\<lparr>arg_targets = [''https://music.yandex.ru/album/1''], arg_limit = 8,
       arg_conflict = ''IGNORE'', arg_dest = ''/tmp/out''\<rparr>"
  have p: "path_convert sample_env ''/tmp/out'' = Inr ''/tmp/out''"
    by (simp add: path_convert_def sample_env_def)
  have ok: "fetch_params sample_env ?r = Inr ?a"
    by code_simp
  from fetch_accepts_no_targets [of sample_env "''/tmp/out''" "''/tmp/out''" "()" ?r ?a] p ok
  show ?thesis by simp
qed

subsection \<open>Parameters of \<^verbatim>\<open>cookies\<close>\<close>

lemma cookies_params_action_cong:
  assumes "choice_convert e False action_choices v = choice_convert e False action_choices w"
  shows "cookies_params e (c\<lparr>raw_action := Some v\<rparr>) = cookies_params e (c\<lparr>raw_action := Some w\<rparr>)"
  using assms by (simp add: cookies_params_def cong: sum.case_cong)

lemma cookies_params_action:
  assumes "cookies_params e c = Inr a" and "raw_action c = Some v"
  shows "choice_convert e False action_choices v = Inr (arg_action a)"
  using assms by (auto simp: cookies_params_def split: sum.splits)

text \<open>The one option \<^verbatim>\<open>cookies\<close> declares as required is \<^verbatim>\<open>--domain\<close>.\<close>

lemma cookies_requires_domain:
  "raw_domain r = None \<Longrightarrow> cookies_params e r = Inl UsageError"
  by (simp add: cookies_params_def required_option_def)

lemma cookies_key_value_free:
  "cookies_params e r = Inr a \<Longrightarrow>
   cookies_params e (r\<lparr>raw_key := k, raw_value := v\<rparr>) = Inr (a\<lparr>arg_key := k, arg_value := v\<rparr>)"
  by (auto simp: cookies_params_def split: sum.splits)

text \<open>
  C10. The \<^verbatim>\<open>--conflict\<close> option of \<^verbatim>\<open>fetch\<close> and the \<^verbatim>\<open>action\<close> argument of
  \<^verbatim>\<open>cookies\<close> are matched without regard to case. For every casing \<open>v\<close> of a declared
  choice \<open>w\<close> (ERROR, IGNORE, OVERRIDE; DELETE, GET, SET) the choice type accepts \<open>v\<close>
  and returns \<open>w\<close>; parameter processing gives the same result for \<open>v\<close> as for \<open>w\<close>, and
  the callback receives \<open>w\<close>.
\<close>

theorem choices_case_insensitive:
  "casing_of w v \<Longrightarrow>
   (w \<in> set conflict_choices \<longrightarrow>
      choice_convert e False conflict_choices v = Inr w \<and>
      fetch_params e (r\<lparr>raw_conflict := Some v\<rparr>) = fetch_params e (r\<lparr>raw_conflict := Some w\<rparr>) \<and>
      (fetch_params e (r\<lparr>raw_conflict := Some v\<rparr>) = Inr a \<longrightarrow> arg_conflict a = w)) \<and>
   (w \<in> set action_choices \<longrightarrow>
      choice_convert e False action_choices v = Inr w \<and>
      cookies_params e (c\<lparr>raw_action := Some v\<rparr>) = cookies_params e (c\<lparr>raw_action := Some w\<rparr>) \<and>
      (cookies_params e (c\<lparr>raw_action := Some v\<rparr>) = Inr b \<longrightarrow> arg_action b = w))"
proof (intro conjI impI)
  assume cas: "casing_of w v" and mem: "w \<in> set conflict_choices"
  from conflict_choice_canonical [OF mem, of e]
  have asc: "list_all is_ascii w" and can: "choice_convert e False conflict_choices w = Inr w"
    by simp_all
  show conv: "choice_convert e False conflict_choices v = Inr w"
    using casing_of_choice [OF cas asc, of e conflict_choices] can by simp
  show "fetch_params e (r\<lparr>raw_conflict := Some v\<rparr>) = fetch_params e (r\<lparr>raw_conflict := Some w\<rparr>)"
    by (rule fetch_params_conflict_cong) (simp add: conv can)
  assume "fetch_params e (r\<lparr>raw_conflict := Some v\<rparr>) = Inr a"
  from fetch_params_conflict [OF this] conv show "arg_conflict a = w"
    by simp
next
  assume cas: "casing_of w v" and mem: "w \<in> set action_choices"
  from action_choice_canonical [OF mem, of e]
  have asc: "list_all is_ascii w" and can: "choice_convert e False action_choices w = Inr w"
    by simp_all
  show conv: "choice_convert e False action_choices v = Inr w"
    using casing_of_choice [OF cas asc, of e action_choices] can by simp
  show "cookies_params e (c\<lparr>raw_action := Some v\<rparr>) = cookies_params e (c\<lparr>raw_action := Some w\<rparr>)"
    by (rule cookies_params_action_cong) (simp add: conv can)
  assume "cookies_params e (c\<lparr>raw_action := Some v\<rparr>) = Inr b"
  from cookies_params_action [OF this, of v] conv show "arg_action b = w"
    by simp
qed

theorem choices_case_insensitive_witness:
  "casing_of ''IGNORE'' ''iGnOre'' \<and> casing_of ''DELETE'' ''Delete'' \<and>
   choice_convert sample_env False conflict_choices ''iGnOre'' = Inr ''IGNORE'' \<and>
   fetch_params sample_env
     \<lparr>raw_targets = [], raw_limit = None, raw_conflict = Some ''iGnOre'', raw_dest = Some ''/tmp/out''\<rparr>
     = Inr \<lparr>arg_targets = [], arg_limit = 4, arg_conflict = ''IGNORE'', arg_dest = ''/tmp/out''\<rparr> \<and>
   choice_convert sample_env False action_choices ''Delete'' = Inr ''DELETE'' \<and>
   cookies_params sample_env
     \<lparr>raw_action = Some ''Delete'', raw_domain = Some ''example.com'', raw_key = None, raw_value = None\<rparr>
     = Inr \<lparr>arg_action = ''DELETE'', arg_domain = ''example.com'', arg_key = None, arg_value = None\<rparr>"
proof -
  let ?r = "\<lparr>raw_targets = [], raw_limit = None, raw_conflict = None, raw_dest = Some ''/tmp/out''\<rparr>"
  let ?c = "\<lparr>raw_action = None, raw_domain = Some ''example.com'', raw_key = None, raw_value = None\<rparr>"
  let ?a = "\<lparr>arg_targets = [], arg_limit = 4, arg_conflict = ''IGNORE'', arg_dest = ''/tmp/out''\<rparr>"
  let ?b = "\<lparr>arg_action = ''DELETE'', arg_domain = ''example.com'', arg_key = None, arg_value = None\<rparr>"
  have c1: "casing_of ''IGNORE'' ''iGnOre''"
    by (simp add: casing_of_def ascii_lower_def ascii_upper_def char_of_eq_iff eq_char_of_iff)
  have c2: "casing_of ''DELETE'' ''Delete''"
    by (simp add: casing_of_def ascii_lower_def ascii_upper_def char_of_eq_iff eq_char_of_iff)
  have m1: "''IGNORE'' \<in> set conflict_choices"
    by (simp add: conflict_choices_def)
  have m2: "''DELETE'' \<in> set action_choices"
    by (simp add: action_choices_def)
  have f: "fetch_params sample_env (?r\<lparr>raw_conflict := Some ''IGNORE''\<rparr>) = Inr ?a"
    by code_simp
  have k: "cookies_params sample_env (?c\<lparr>raw_action := Some ''DELETE''\<rparr>) = Inr ?b"
    by code_simp
  from choices_case_insensitive [OF c1, of sample_env ?r ?a ?c ?b] m1 f
  have r1: "choice_convert sample_env False conflict_choices ''iGnOre'' = Inr ''IGNORE'' \<and>
      fetch_params sample_env (?r\<lparr>raw_conflict := Some ''iGnOre''\<rparr>) = Inr ?a"
    by simp
  from choices_case_insensitive [OF c2, of sample_env ?r ?a ?c ?b] m2 k
  have r2: "choice_convert sample_env False action_choices ''Delete'' = Inr ''DELETE'' \<and>
      cookies_params sample_env (?c\<lparr>raw_action := Some ''Delete''\<rparr>) = Inr ?b"
    by simp
  show ?thesis using c1 c2 r1 r2 by simp
qed

subsection \<open>Where the callbacks fall short of their docstrings\<close>

text \<open>
  C5. The docstring of \<^verbatim>\<open>cookies\<close> says that GET requires domain and key and that SET
  requires domain, key and value. The declarations require \<^verbatim>\<open>--domain\<close> only and the
  callback checks nothing: \<^verbatim>\<open>cookies get --domain example.com\<close> and
  \<^verbatim>\<open>cookies set --domain example.com\<close> are accepted and end with exit code 0.
\<close>

theorem cookies_get_without_key_accepted:
  "cookies_params e
     \<lparr>raw_action = Some ''get'', raw_domain = Some ''example.com'', raw_key = None, raw_value = None\<rparr>
     = Inr \<lparr>arg_action = ''GET'', arg_domain = ''example.com'', arg_key = None, arg_value = None\<rparr> \<and>
   cookies_cmd e
     \<lparr>raw_action = Some ''get'', raw_domain = Some ''example.com'', raw_key = None, raw_value = None\<rparr> w
     = \<lparr>exit_code = 0, stdout = [], world = w\<rparr> \<and>
   cookies_cmd e
     \<lparr>raw_action = Some ''set'', raw_domain = Some ''example.com'', raw_key = None, raw_value = None\<rparr> w
     = \<lparr>exit_code = 0, stdout = [], world = w\<rparr>"
  by (simp add: cookies_cmd_def cookies_params_def required_option_def
      action_get action_set cookies_def returned_def)

text \<open>
  C6. The docstring of \<^verbatim>\<open>cookies\<close> says that SET stores the value and that GET prints
  it. The callback has no statements:
  \<^verbatim>\<open>cookies set --domain example.com --key UserName --value Helltraitor\<close> leaves the world
  as it was, and \<^verbatim>\<open>cookies get --domain example.com --key UserName\<close> after it prints
  nothing.
\<close>

theorem cookies_set_then_get_prints_nothing:
  "world (cookies_cmd e
     \<lparr>raw_action = Some ''set'', raw_domain = Some ''example.com'', raw_key = Some ''UserName'',
      raw_value = Some ''Helltraitor''\<rparr> w) = w \<and>
   cookies_cmd e
     \<lparr>raw_action = Some ''get'', raw_domain = Some ''example.com'', raw_key = Some ''UserName'',
      raw_value = None\<rparr>
     (world (cookies_cmd e
        \<lparr>raw_action = Some ''set'', raw_domain = Some ''example.com'', raw_key = Some ''UserName'',
         raw_value = Some ''Helltraitor''\<rparr> w))
     = \<lparr>exit_code = 0, stdout = [], world = w\<rparr>"
  by (simp add: cookies_cmd_def cookies_params_def required_option_def
      action_get action_set cookies_def returned_def)

text \<open>
  C7. The docstring of \<^verbatim>\<open>about\<close> says that an unknown domain must display
  \<^verbatim>\<open>example.com domain is not supported.\<close> The callback has no statements:
  \<^verbatim>\<open>about unknown.example.com\<close> ends with exit code 0 and prints nothing.
\<close>

theorem about_unknown_domain_prints_nothing:
  "about_cmd (Some ''unknown.example.com'') w = \<lparr>exit_code = 0, stdout = [], world = w\<rparr> \<and>
   stdout (about_cmd (Some ''unknown.example.com'') w)
     \<noteq> [''unknown.example.com domain is not supported.'']"
  by (simp add: about_cmd_def about_params_def about_def returned_def)

end
